theory Spec2Isabelle
  imports Main "HOL-Library.Word"
begin

section \<open>The plugin registration entry point of media_kit_libs_windows_video\<close>

text \<open>
  The source file \<^verbatim>\<open>media_kit_libs_windows_video_plugin_c_api.cpp\<close> holds one function:

  \<^verbatim>\<open>void MediaKitLibsWindowsVideoPluginCApiRegisterWithRegistrar(
      FlutterDesktopPluginRegistrarRef registrar) {
    MediaKit::GetInstance().FindPackages();
    std::cout << "package:media_kit_libs_windows_video registered." << std::endl;
  }\<close>

  Its body is two expression statements. The first obtains the singleton of the class
  \<^verbatim>\<open>MediaKit\<close> and calls its member \<^verbatim>\<open>FindPackages\<close>; the second inserts a string
  literal into \<^verbatim>\<open>std::cout\<close> and applies \<^verbatim>\<open>std::endl\<close>. The embedding passes the
  process state explicitly and records every effect in a trace, oldest first.
\<close>

subsection \<open>Data\<close>

text \<open>
  \<^verbatim>\<open>FlutterDesktopPluginRegistrarRef\<close> is a pointer to an opaque structure of the host
  (the Windows embedder runs on 64-bit targets): an address.
\<close>

type_synonym FlutterDesktopPluginRegistrarRef = "64 word"

text \<open>The effects the function can perform, as they appear in its body.\<close>

datatype effect =
    Call_GetInstance
  | Call_FindPackages
  | Cout_insert string
  | Cout_put char
  | Cout_flush

text \<open>
  The state of the process as far as the function can touch it: the state of the package
  locator (behind \<^verbatim>\<open>media_kit.h\<close>), the stream \<^verbatim>\<open>std::cout\<close> (characters inserted and not
  yet flushed, and characters already delivered to standard output), and all the rest of
  the memory of the process, which includes whatever the registrar handle points to.
\<close>

record ('p, 'o) process =
  media_kit :: 'p
  cout_buffer :: string
  stdout :: string
  rest :: 'o
  effects :: "effect list"

text \<open>
  The class \<^verbatim>\<open>MediaKit\<close> is declared in \<^verbatim>\<open>media_kit.h\<close>, which is not among the
  sources, so its two members are parameters of the embedding. Following section 4.1 of
  the specification, \<^verbatim>\<open>GetInstance\<close> obtains the process-wide instance (a handle of type
  \<open>'h\<close>; a first call may construct it, so the locator state may change), and
  \<^verbatim>\<open>FindPackages\<close> is called on that instance, changes the locator state in a way that is
  not specified, and may fail: its first component is \<open>Some exn\<close> when it throws the
  exception \<open>exn\<close> and \<open>None\<close> when it returns.
\<close>

record ('h, 'p, 'e) MediaKit =
  GetInstance :: "'p \<Rightarrow> 'h \<times> 'p"
  FindPackages :: "'h \<Rightarrow> 'p \<Rightarrow> 'e option \<times> 'p"

subsection \<open>Operations\<close>

text \<open>The call \<^verbatim>\<open>MediaKit::GetInstance()\<close>.\<close>

definition call_GetInstance ::
  "('h, 'p, 'e) MediaKit \<Rightarrow> ('p, 'o) process \<Rightarrow> 'h \<times> ('p, 'o) process" where
  "call_GetInstance api s =
     (case GetInstance api (media_kit s) of
        (inst, p) \<Rightarrow> (inst, s\<lparr>media_kit := p, effects := effects s @ [Call_GetInstance]\<rparr>))"

text \<open>The member call \<^verbatim>\<open>inst.FindPackages()\<close>.\<close>

definition call_FindPackages ::
  "('h, 'p, 'e) MediaKit \<Rightarrow> 'h \<Rightarrow> ('p, 'o) process \<Rightarrow> 'e option \<times> ('p, 'o) process" where
  "call_FindPackages api inst s =
     (case FindPackages api inst (media_kit s) of
        (exn, p) \<Rightarrow> (exn, s\<lparr>media_kit := p, effects := effects s @ [Call_FindPackages]\<rparr>))"

text \<open>\<^verbatim>\<open>std::cout << str\<close> for a character string: the characters go to the buffer.\<close>

definition cout_insert :: "string \<Rightarrow> ('p, 'o) process \<Rightarrow> ('p, 'o) process" where
  "cout_insert str s =
     s\<lparr>cout_buffer := cout_buffer s @ str, effects := effects s @ [Cout_insert str]\<rparr>"

text \<open>\<^verbatim>\<open>std::cout.put(c)\<close>.\<close>

definition cout_put :: "char \<Rightarrow> ('p, 'o) process \<Rightarrow> ('p, 'o) process" where
  "cout_put c s =
     s\<lparr>cout_buffer := cout_buffer s @ [c], effects := effects s @ [Cout_put c]\<rparr>"

text \<open>\<^verbatim>\<open>std::cout.flush()\<close>: the buffered characters are delivered to standard output.\<close>

definition cout_flush :: "('p, 'o) process \<Rightarrow> ('p, 'o) process" where
  "cout_flush s =
     s\<lparr>stdout := stdout s @ cout_buffer s, cout_buffer := [],
       effects := effects s @ [Cout_flush]\<rparr>"

text \<open>\<^verbatim>\<open>std::cout << std::endl\<close>: the newline character is put, then the stream is flushed.\<close>

definition endl :: "('p, 'o) process \<Rightarrow> ('p, 'o) process" where
  "endl s = cout_flush (cout_put (CHR 0x0A) s)"

text \<open>
  The entry point. An exception thrown by \<^verbatim>\<open>FindPackages\<close> leaves the function at once
  (there is no \<^verbatim>\<open>try\<close> block): the result is \<open>Inl exn\<close> and the second statement is not
  run. Otherwise the function runs to its end and returns nothing: \<open>Inr ()\<close>.
\<close>

definition MediaKitLibsWindowsVideoPluginCApiRegisterWithRegistrar ::
  "('h, 'p, 'e) MediaKit \<Rightarrow> FlutterDesktopPluginRegistrarRef \<Rightarrow> ('p, 'o) process
     \<Rightarrow> ('e + unit) \<times> ('p, 'o) process" where
  "MediaKitLibsWindowsVideoPluginCApiRegisterWithRegistrar api registrar s =
     (case call_GetInstance api s of
        (inst, s1) \<Rightarrow>
          (case call_FindPackages api inst s1 of
             (Some exn, s2) \<Rightarrow> (Inl exn, s2)
           | (None, s2) \<Rightarrow>
               (Inr (),
                endl (cout_insert ''package:media_kit_libs_windows_video registered.'' s2))))"

subsection \<open>Vocabulary of the specification\<close>

text \<open>The confirmation text of section 6 of the specification.\<close>

definition confirmation :: string where
  "confirmation = ''package:media_kit_libs_windows_video registered.''"

text \<open>
  What the package locator does when the function is entered with locator state \<open>p\<close>: the
  outcome of \<^verbatim>\<open>MediaKit::GetInstance().FindPackages()\<close> (the exception, if one is thrown,
  and the new locator state).
\<close>

definition discovery :: "('h, 'p, 'e) MediaKit \<Rightarrow> 'p \<Rightarrow> 'e option \<times> 'p" where
  "discovery api p = (case GetInstance api p of (inst, p1) \<Rightarrow> FindPackages api inst p1)"

text \<open>All characters ever inserted into \<^verbatim>\<open>std::cout\<close>, delivered or still buffered.\<close>

definition cout_text :: "('p, 'o) process \<Rightarrow> string" where
  "cout_text s = stdout s @ cout_buffer s"

text \<open>The effects performed, and the characters inserted, between two states.\<close>

definition emitted :: "('p, 'o) process \<Rightarrow> ('p, 'o) process \<Rightarrow> effect list" where
  "emitted s s' = drop (length (effects s)) (effects s')"

definition written :: "('p, 'o) process \<Rightarrow> ('p, 'o) process \<Rightarrow> string" where
  "written s s' = drop (length (cout_text s)) (cout_text s')"

text \<open>
  A text cut at its newline characters: the complete lines (without their terminators) and
  the characters after the last terminator.
\<close>

primrec text_lines :: "string \<Rightarrow> string list \<times> string" where
  "text_lines [] = ([], [])"
| "text_lines (c # cs) =
     (case text_lines cs of
        (ls, r) \<Rightarrow>
          if c = CHR 0x0A then ([] # ls, r)
          else (case ls of [] \<Rightarrow> ([], c # r) | l # ls' \<Rightarrow> ((c # l) # ls', r)))"

text \<open>Whether an effect is an output on \<^verbatim>\<open>std::cout\<close>.\<close>

fun is_output :: "effect \<Rightarrow> bool" where
  "is_output (Cout_insert str) = True"
| "is_output (Cout_put c) = True"
| "is_output Cout_flush = True"
| "is_output e = False"

text \<open>Two process states and two package locators on which the function is run below.\<close>

definition idle_process :: "(nat, nat) process" where
  "idle_process =
     \<lparr>media_kit = 0, cout_buffer = [], stdout = [], rest = 7, effects = []\<rparr>"

definition busy_process :: "(nat, nat) process" where
  "busy_process =
     \<lparr>media_kit = 3, cout_buffer = ''pending'', stdout = ''earlier'' @ [CHR 0x0A], rest = 9,
      effects = [Cout_insert ''earlier'', Cout_put (CHR 0x0A), Cout_flush, Cout_insert ''pending'']\<rparr>"

definition finding_MediaKit :: "(nat, nat, string) MediaKit" where
  "finding_MediaKit =
     \<lparr>GetInstance = (\<lambda>p. (1, p)), FindPackages = (\<lambda>inst p. (None, p + inst))\<rparr>"

definition failing_MediaKit :: "(nat, nat, string) MediaKit" where
  "failing_MediaKit =
     \<lparr>GetInstance = (\<lambda>p. (1, p)), FindPackages = (\<lambda>inst p. (Some ''no packages'', p))\<rparr>"

section \<open>Properties\<close>

subsection \<open>Running the function\<close>

lemma register_unfold:
  "MediaKitLibsWindowsVideoPluginCApiRegisterWithRegistrar api registrar s =
     (case discovery api (media_kit s) of
        (Some exn, p) \<Rightarrow>
          (Inl exn,
           s\<lparr>media_kit := p, effects := effects s @ [Call_GetInstance, Call_FindPackages]\<rparr>)
      | (None, p) \<Rightarrow>
          (Inr (),
           s\<lparr>media_kit := p,
             cout_buffer := [],
             stdout := stdout s @ cout_buffer s
                @ ''package:media_kit_libs_windows_video registered.'' @ [CHR 0x0A],
             effects := effects s @
                [Call_GetInstance, Call_FindPackages,
                 Cout_insert ''package:media_kit_libs_windows_video registered.'',
                 Cout_put (CHR 0x0A), Cout_flush]\<rparr>))"
  unfolding MediaKitLibsWindowsVideoPluginCApiRegisterWithRegistrar_def call_GetInstance_def
    call_FindPackages_def discovery_def endl_def cout_flush_def cout_put_def cout_insert_def
  by (simp split: prod.splits option.splits)

lemma register_returned:
  assumes "fst (discovery api (media_kit s)) = None"
  shows "MediaKitLibsWindowsVideoPluginCApiRegisterWithRegistrar api registrar s =
     (Inr (),
      s\<lparr>media_kit := snd (discovery api (media_kit s)),
        cout_buffer := [],
        stdout := cout_text s @ confirmation @ [CHR 0x0A],
        effects := effects s @
           [Call_GetInstance, Call_FindPackages, Cout_insert confirmation,
            Cout_put (CHR 0x0A), Cout_flush]\<rparr>)"
proof -
  obtain p where "discovery api (media_kit s) = (None, p)"
    using assms by (cases "discovery api (media_kit s)") simp
  then show ?thesis
    by (simp add: register_unfold confirmation_def cout_text_def)
qed

lemma register_threw:
  assumes "fst (discovery api (media_kit s)) = Some exn"
  shows "MediaKitLibsWindowsVideoPluginCApiRegisterWithRegistrar api registrar s =
     (Inl exn,
      s\<lparr>media_kit := snd (discovery api (media_kit s)),
        effects := effects s @ [Call_GetInstance, Call_FindPackages]\<rparr>)"
proof -
  obtain p where "discovery api (media_kit s) = (Some exn, p)"
    using assms by (cases "discovery api (media_kit s)") simp
  then show ?thesis
    by (simp add: register_unfold)
qed

lemma register_threw_some:
  assumes "fst (discovery api (media_kit s)) \<noteq> None"
  shows "snd (MediaKitLibsWindowsVideoPluginCApiRegisterWithRegistrar api registrar s) =
      s\<lparr>media_kit := snd (discovery api (media_kit s)),
        effects := effects s @ [Call_GetInstance, Call_FindPackages]\<rparr>"
proof -
  from assms obtain exn where "fst (discovery api (media_kit s)) = Some exn"
    by auto
  from register_threw [OF this] show ?thesis
    by simp
qed

lemma text_lines_confirmation:
  "text_lines (confirmation @ [CHR 0x0A]) = ([confirmation], [])"
  by (simp add: confirmation_def)

lemma emitted_append [simp]:
  "effects s' = effects s @ es \<Longrightarrow> emitted s s' = es"
  by (simp add: emitted_def)

lemma written_append [simp]:
  "cout_text s' = cout_text s @ str \<Longrightarrow> written s s' = str"
  by (simp add: written_def)

lemma register_cases:
  obtains (returned) "fst (discovery api (media_kit s)) = None"
    | (threw) exn where "fst (discovery api (media_kit s)) = Some exn"
  by (cases "fst (discovery api (media_kit s))") auto

lemmas sample_defs =
  idle_process_def busy_process_def finding_MediaKit_def failing_MediaKit_def discovery_def

subsection \<open>One discovery, one line of output\<close>




text \<open>
  C2 (corrected): when the discovery returns, the text the call writes is exactly the
  confirmation literal followed by the newline character, and the line is complete: the
  stream is flushed, so standard output holds everything inserted so far and the buffer is
  empty. When the discovery throws, the call writes nothing at all. The specification
  states the text for every call; the last theorem of this block is a run where the
  discovery throws and the text written is empty.
\<close>

theorem register_output_text:
  assumes "s' = snd (MediaKitLibsWindowsVideoPluginCApiRegisterWithRegistrar api registrar s)"
  shows "(fst (discovery api (media_kit s)) = None \<longrightarrow>
            written s s' = confirmation @ [CHR 0x0A]
          \<and> stdout s' = cout_text s @ confirmation @ [CHR 0x0A]
          \<and> cout_buffer s' = [])
     \<and> (fst (discovery api (media_kit s)) \<noteq> None \<longrightarrow>
            written s s' = [] \<and> stdout s' = stdout s \<and> cout_buffer s' = cout_buffer s)"
proof (cases "fst (discovery api (media_kit s)) = None")
  case True
  then show ?thesis
    unfolding assms by (simp add: register_returned [OF True] cout_text_def)
next
  case False
  then show ?thesis
    unfolding assms by (simp add: register_threw_some [OF False] cout_text_def)
qed

theorem register_output_text_witness:
  "fst (discovery finding_MediaKit (media_kit busy_process)) = None
   \<and> written busy_process (snd (MediaKitLibsWindowsVideoPluginCApiRegisterWithRegistrar
        finding_MediaKit 5 busy_process))
       = ''package:media_kit_libs_windows_video registered.'' @ [CHR 0x0A]
   \<and> stdout (snd (MediaKitLibsWindowsVideoPluginCApiRegisterWithRegistrar
        finding_MediaKit 5 busy_process))
       = ''earlier'' @ [CHR 0x0A] @ ''pending''
           @ ''package:media_kit_libs_windows_video registered.'' @ [CHR 0x0A]
   \<and> cout_buffer (snd (MediaKitLibsWindowsVideoPluginCApiRegisterWithRegistrar
        finding_MediaKit 5 busy_process)) = []
   \<and> fst (discovery failing_MediaKit (media_kit idle_process)) \<noteq> None
   \<and> written idle_process (snd (MediaKitLibsWindowsVideoPluginCApiRegisterWithRegistrar
        failing_MediaKit 0 idle_process)) = []
   \<and> stdout (snd (MediaKitLibsWindowsVideoPluginCApiRegisterWithRegistrar
        failing_MediaKit 0 idle_process)) = []"
  using register_output_text
      [OF refl, where s = busy_process and api = finding_MediaKit and registrar = 5]
    register_output_text
      [OF refl, where s = idle_process and api = failing_MediaKit and registrar = 0]
  by (simp add: sample_defs confirmation_def cout_text_def)

theorem register_output_text_counterexample:
  "written busy_process (snd (MediaKitLibsWindowsVideoPluginCApiRegisterWithRegistrar
        failing_MediaKit 5 busy_process)) = []
   \<and> written busy_process (snd (MediaKitLibsWindowsVideoPluginCApiRegisterWithRegistrar
        failing_MediaKit 5 busy_process))
       \<noteq> ''package:media_kit_libs_windows_video registered.'' @ [CHR 0x0A]"
proof -
  have h: "fst (discovery failing_MediaKit (media_kit busy_process)) = Some ''no packages''"
    by (simp add: sample_defs)
  show ?thesis
    by (simp add: register_threw [OF h] cout_text_def)
qed

subsection \<open>The order of the effects\<close>

lemma order_returned:
  assumes "es = [Call_GetInstance, Call_FindPackages, Cout_insert str, Cout_put c, Cout_flush]"
    and "i < length es"
  shows "is_output (es ! i) \<longrightarrow> Call_FindPackages \<in> set (take i es)"
    and "es ! i = Call_FindPackages \<longrightarrow> Call_GetInstance \<in> set (take i es)"
proof -
  from assms have "i = 0 \<or> i = 1 \<or> i = 2 \<or> i = 3 \<or> i = 4"
    by auto
  then show "is_output (es ! i) \<longrightarrow> Call_FindPackages \<in> set (take i es)"
    and "es ! i = Call_FindPackages \<longrightarrow> Call_GetInstance \<in> set (take i es)"
    unfolding assms(1) by (auto simp add: eval_nat_numeral)
qed

lemma order_threw:
  assumes "es = [Call_GetInstance, Call_FindPackages]"
    and "i < length es"
  shows "is_output (es ! i) \<longrightarrow> Call_FindPackages \<in> set (take i es)"
    and "es ! i = Call_FindPackages \<longrightarrow> Call_GetInstance \<in> set (take i es)"
proof -
  from assms have "i = 0 \<or> i = 1"
    by auto
  then show "is_output (es ! i) \<longrightarrow> Call_FindPackages \<in> set (take i es)"
    and "es ! i = Call_FindPackages \<longrightarrow> Call_GetInstance \<in> set (take i es)"
    unfolding assms(1) by auto
qed

text \<open>
  C3: the effects of a call happen in the order of the body. The trace grows by the effects
  of the call; each output effect in it comes after the call of the discovery, and that call
  after the instance has been obtained. In the state, the discovery is run on the instance
  and on the locator state that obtaining the instance yields, and the locator is left as
  the discovery leaves it. When the discovery returns, the effects are: obtain the instance,
  call the discovery, insert the confirmation text, put the newline, flush, and standard
  output then holds the earlier text followed by the confirmation line. When the discovery
  throws, the effects stop after the call of the discovery and standard output and the
  buffer are untouched: the line is never written before the discovery has been invoked.
\<close>

theorem register_effect_order:
  assumes "s' = snd (MediaKitLibsWindowsVideoPluginCApiRegisterWithRegistrar api registrar s)"
    and "es = emitted s s'"
  shows "effects s' = effects s @ es
     \<and> (\<forall>i < length es. is_output (es ! i) \<longrightarrow> Call_FindPackages \<in> set (take i es))
     \<and> (\<forall>i < length es. es ! i = Call_FindPackages \<longrightarrow> Call_GetInstance \<in> set (take i es))
     \<and> media_kit s' =
         snd (FindPackages api (fst (GetInstance api (media_kit s)))
               (snd (GetInstance api (media_kit s))))
     \<and> (fst (discovery api (media_kit s)) = None \<longrightarrow>
          es = [Call_GetInstance, Call_FindPackages, Cout_insert confirmation,
                Cout_put (CHR 0x0A), Cout_flush]
          \<and> stdout s' = stdout s @ cout_buffer s @ confirmation @ [CHR 0x0A]
          \<and> cout_buffer s' = [])
     \<and> (fst (discovery api (media_kit s)) \<noteq> None \<longrightarrow>
          es = [Call_GetInstance, Call_FindPackages]
          \<and> stdout s' = stdout s \<and> cout_buffer s' = cout_buffer s)"
proof (cases "fst (discovery api (media_kit s)) = None")
  case True
  have s': "s' = s\<lparr>media_kit := snd (discovery api (media_kit s)), cout_buffer := [],
        stdout := cout_text s @ confirmation @ [CHR 0x0A],
        effects := effects s @
           [Call_GetInstance, Call_FindPackages, Cout_insert confirmation,
            Cout_put (CHR 0x0A), Cout_flush]\<rparr>"
    unfolding assms(1) by (simp add: register_returned [OF True])
  have es: "es = [Call_GetInstance, Call_FindPackages, Cout_insert confirmation,
              Cout_put (CHR 0x0A), Cout_flush]"
    unfolding assms(2) s' by simp
  have state: "effects s' = effects s @ es"
    "media_kit s' = snd (FindPackages api (fst (GetInstance api (media_kit s)))
               (snd (GetInstance api (media_kit s))))"
    "stdout s' = stdout s @ cout_buffer s @ confirmation @ [CHR 0x0A]"
    "cout_buffer s' = []"
    unfolding es s' by (simp_all add: discovery_def cout_text_def split: prod.splits)
  with True es order_returned [OF es] show ?thesis
    by simp
next
  case False
  have s': "s' = s\<lparr>media_kit := snd (discovery api (media_kit s)),
        effects := effects s @ [Call_GetInstance, Call_FindPackages]\<rparr>"
    unfolding assms(1) by (simp add: register_threw_some [OF False])
  have es: "es = [Call_GetInstance, Call_FindPackages]"
    unfolding assms(2) s' by simp
  have state: "effects s' = effects s @ es"
    "media_kit s' = snd (FindPackages api (fst (GetInstance api (media_kit s)))
               (snd (GetInstance api (media_kit s))))"
    "stdout s' = stdout s" "cout_buffer s' = cout_buffer s"
    unfolding es s' by (simp_all add: discovery_def split: prod.splits)
  with False es order_threw [OF es] show ?thesis
    by simp
qed

theorem register_effect_order_witness:
  "fst (discovery finding_MediaKit (media_kit busy_process)) = None
   \<and> effects (snd (MediaKitLibsWindowsVideoPluginCApiRegisterWithRegistrar finding_MediaKit 5
        busy_process))
       = effects busy_process @ [Call_GetInstance, Call_FindPackages, Cout_insert confirmation,
              Cout_put (CHR 0x0A), Cout_flush]
   \<and> is_output (emitted busy_process (snd (MediaKitLibsWindowsVideoPluginCApiRegisterWithRegistrar
         finding_MediaKit 5 busy_process)) ! 2)
   \<and> Call_FindPackages \<in> set (take 2 (emitted busy_process
         (snd (MediaKitLibsWindowsVideoPluginCApiRegisterWithRegistrar finding_MediaKit 5
            busy_process))))
   \<and> media_kit (snd (MediaKitLibsWindowsVideoPluginCApiRegisterWithRegistrar finding_MediaKit 5
        busy_process)) = 4
   \<and> stdout (snd (MediaKitLibsWindowsVideoPluginCApiRegisterWithRegistrar finding_MediaKit 5
        busy_process)) = ''earlier'' @ [CHR 0x0A] @ ''pending'' @ confirmation @ [CHR 0x0A]
   \<and> fst (discovery failing_MediaKit (media_kit busy_process)) \<noteq> None
   \<and> emitted busy_process (snd (MediaKitLibsWindowsVideoPluginCApiRegisterWithRegistrar
        failing_MediaKit 5 busy_process)) = [Call_GetInstance, Call_FindPackages]
   \<and> stdout (snd (MediaKitLibsWindowsVideoPluginCApiRegisterWithRegistrar failing_MediaKit 5
        busy_process)) = ''earlier'' @ [CHR 0x0A]
   \<and> cout_buffer (snd (MediaKitLibsWindowsVideoPluginCApiRegisterWithRegistrar failing_MediaKit 5
        busy_process)) = ''pending''"
  using register_effect_order
      [OF refl refl, where s = busy_process and api = finding_MediaKit and registrar = 5]
    register_effect_order
      [OF refl refl, where s = busy_process and api = failing_MediaKit and registrar = 5]
  by (simp add: sample_defs numeral_2_eq_2)

subsection \<open>Result and exceptions\<close>

text \<open>
  C4: the entry point takes the registrar handle and returns nothing: for every handle,
  when the discovery returns, the call returns the unit value \<open>()\<close> of \<^verbatim>\<open>void\<close>.
\<close>

theorem register_returns_nothing:
  assumes "fst (discovery api (media_kit s)) = None"
  shows "\<exists>s'. MediaKitLibsWindowsVideoPluginCApiRegisterWithRegistrar api registrar s = (Inr (), s')"
  using register_returned [OF assms] by blast

theorem register_returns_nothing_witness:
  "fst (discovery finding_MediaKit (media_kit idle_process)) = None
   \<and> (\<exists>s'. MediaKitLibsWindowsVideoPluginCApiRegisterWithRegistrar finding_MediaKit 0 idle_process
          = (Inr (), s'))"
proof -
  have h: "fst (discovery finding_MediaKit (media_kit idle_process)) = None"
    by (simp add: sample_defs)
  show ?thesis
    using h register_returns_nothing [OF h, of 0] by simp
qed

text \<open>
  C5: the entry point has no errors of its own and handles none. It is left by the
  exception \<open>exn\<close> exactly when the discovery throws \<open>exn\<close> (nothing is caught and nothing
  is changed on the way), and it returns exactly when the discovery returns.
\<close>

theorem register_no_error_handling:
  "(fst (MediaKitLibsWindowsVideoPluginCApiRegisterWithRegistrar api registrar s) = Inl exn)
     = (fst (discovery api (media_kit s)) = Some exn)
   \<and> (fst (MediaKitLibsWindowsVideoPluginCApiRegisterWithRegistrar api registrar s) = Inr ())
     = (fst (discovery api (media_kit s)) = None)"
proof (cases rule: register_cases [of api s])
  case returned
  then show ?thesis
    by (simp add: register_returned [OF returned])
next
  case (threw exn')
  then show ?thesis
    by (simp add: register_threw [OF threw])
qed

theorem register_no_error_handling_witness:
  "fst (discovery failing_MediaKit (media_kit busy_process)) = Some ''no packages''
   \<and> fst (MediaKitLibsWindowsVideoPluginCApiRegisterWithRegistrar failing_MediaKit 5 busy_process)
       = Inl ''no packages''
   \<and> fst (discovery finding_MediaKit (media_kit busy_process)) = None
   \<and> fst (MediaKitLibsWindowsVideoPluginCApiRegisterWithRegistrar finding_MediaKit 5 busy_process)
       = Inr ()"
  using register_no_error_handling [of failing_MediaKit 5 busy_process "''no packages''"]
    register_no_error_handling [of finding_MediaKit 5 busy_process]
  by (simp add: sample_defs)

subsection \<open>Frame and independence of the input\<close>

text \<open>
  C6: the frame of a call. The final state differs from the initial one only in the locator
  state, which is the one the discovery leaves, and in \<^verbatim>\<open>std::cout\<close>, which receives the
  confirmation line when the discovery returns and nothing otherwise (the trace records
  these effects). The rest of the process state, where the referent of the registrar handle
  lives, is unchanged, and it is not read: changing it before the call changes nothing but
  itself after the call.
\<close>

theorem register_frame:
  assumes "s' = snd (MediaKitLibsWindowsVideoPluginCApiRegisterWithRegistrar api registrar s)"
  shows "s' = s\<lparr>media_kit := snd (discovery api (media_kit s)),
                 cout_buffer := cout_buffer s', stdout := stdout s', effects := effects s'\<rparr>
     \<and> written s s' =
         (if fst (discovery api (media_kit s)) = None then confirmation @ [CHR 0x0A] else [])
     \<and> rest s' = rest s
     \<and> MediaKitLibsWindowsVideoPluginCApiRegisterWithRegistrar api registrar (s\<lparr>rest := x\<rparr>)
         = (fst (MediaKitLibsWindowsVideoPluginCApiRegisterWithRegistrar api registrar s),
            s'\<lparr>rest := x\<rparr>)"
proof (cases rule: register_cases [of api s])
  case returned
  then have "fst (discovery api (media_kit (s\<lparr>rest := x\<rparr>))) = None"
    by simp
  from register_returned [OF this] returned show ?thesis
    unfolding assms by (simp add: register_returned [OF returned] cout_text_def)
next
  case (threw exn)
  then have "fst (discovery api (media_kit (s\<lparr>rest := x\<rparr>))) = Some exn"
    by simp
  from register_threw [OF this] threw show ?thesis
    unfolding assms by (simp add: register_threw [OF threw] cout_text_def)
qed

theorem register_frame_witness:
  "snd (MediaKitLibsWindowsVideoPluginCApiRegisterWithRegistrar finding_MediaKit 5 busy_process)
     = busy_process\<lparr>media_kit := 4, cout_buffer := [],
         stdout := ''earlier'' @ [CHR 0x0A] @ ''pending'' @ confirmation @ [CHR 0x0A],
         effects := effects busy_process @ [Call_GetInstance, Call_FindPackages,
           Cout_insert confirmation, Cout_put (CHR 0x0A), Cout_flush]\<rparr>
   \<and> rest (snd (MediaKitLibsWindowsVideoPluginCApiRegisterWithRegistrar finding_MediaKit 5
        busy_process)) = 9"
  using register_frame [OF refl, where s = busy_process and api = finding_MediaKit and registrar = 5]
  by (simp add: sample_defs register_unfold confirmation_def)

text \<open>
  C7: the registrar parameter is never used. Run from the same process state with the same
  package locator, two calls with any two registrar handles have the same result and
  leave the same state (the same trace of effects and the same output).
\<close>

theorem register_ignores_registrar:
  "MediaKitLibsWindowsVideoPluginCApiRegisterWithRegistrar api r1 s =
   MediaKitLibsWindowsVideoPluginCApiRegisterWithRegistrar api r2 s"
  unfolding MediaKitLibsWindowsVideoPluginCApiRegisterWithRegistrar_def by (rule refl)

text \<open>
  C8 (corrected): two calls, with any registrar handles, from any process states and with any
  package locators, in which the discovery ends the same way (it returns in both or throws
  in both), perform the same effects and write the same text. Each invokes the discovery
  once and leaves the locator as that discovery leaves it. When the discovery returns, each
  run delivers to standard output, after its own earlier text, the text the other one
  writes, which is the one confirmation line; when it throws, neither writes anything. The
  specification states this for any two calls; the last theorem of this block is a pair of
  runs that differ: from the same state and with the same handle, a discovery that returns
  and one that throws.
\<close>

theorem register_deterministic:
  assumes "s1' = snd (MediaKitLibsWindowsVideoPluginCApiRegisterWithRegistrar api1 r1 s1)"
    and "s2' = snd (MediaKitLibsWindowsVideoPluginCApiRegisterWithRegistrar api2 r2 s2)"
    and "(fst (discovery api1 (media_kit s1)) = None) = (fst (discovery api2 (media_kit s2)) = None)"
  shows "emitted s1 s1' = emitted s2 s2' \<and> written s1 s1' = written s2 s2'
     \<and> count_list (emitted s1 s1') Call_FindPackages = 1
     \<and> media_kit s1' = snd (discovery api1 (media_kit s1))
     \<and> media_kit s2' = snd (discovery api2 (media_kit s2))
     \<and> (fst (discovery api1 (media_kit s1)) = None \<longrightarrow>
          stdout s1' = stdout s1 @ cout_buffer s1 @ written s2 s2' \<and> cout_buffer s1' = []
          \<and> stdout s2' = stdout s2 @ cout_buffer s2 @ written s1 s1' \<and> cout_buffer s2' = []
          \<and> text_lines (written s1 s1') = ([confirmation], []))
     \<and> (fst (discovery api1 (media_kit s1)) \<noteq> None \<longrightarrow>
          stdout s1' = stdout s1 \<and> cout_buffer s1' = cout_buffer s1
          \<and> stdout s2' = stdout s2 \<and> cout_buffer s2' = cout_buffer s2
          \<and> written s1 s1' = [])"
proof (cases "fst (discovery api1 (media_kit s1)) = None")
  case True
  with assms(3) have other: "fst (discovery api2 (media_kit s2)) = None"
    by simp
  show ?thesis
    unfolding assms(1,2)
    by (simp add: True register_returned [OF True] register_returned [OF other] cout_text_def
        text_lines_confirmation)
next
  case False
  with assms(3) have other: "fst (discovery api2 (media_kit s2)) \<noteq> None"
    by simp
  show ?thesis
    unfolding assms(1,2)
    by (simp add: False register_threw_some [OF False] register_threw_some [OF other]
        cout_text_def)
qed

theorem register_deterministic_witness:
  "(fst (discovery finding_MediaKit (media_kit idle_process)) = None)
     = (fst (discovery finding_MediaKit (media_kit busy_process)) = None)
   \<and> fst (discovery finding_MediaKit (media_kit idle_process)) = None
   \<and> emitted idle_process (snd (MediaKitLibsWindowsVideoPluginCApiRegisterWithRegistrar
         finding_MediaKit 0 idle_process))
       = emitted busy_process (snd (MediaKitLibsWindowsVideoPluginCApiRegisterWithRegistrar
         finding_MediaKit 5 busy_process))
   \<and> written idle_process (snd (MediaKitLibsWindowsVideoPluginCApiRegisterWithRegistrar
         finding_MediaKit 0 idle_process))
       = written busy_process (snd (MediaKitLibsWindowsVideoPluginCApiRegisterWithRegistrar
         finding_MediaKit 5 busy_process))
   \<and> stdout (snd (MediaKitLibsWindowsVideoPluginCApiRegisterWithRegistrar
         finding_MediaKit 0 idle_process)) = confirmation @ [CHR 0x0A]
   \<and> stdout (snd (MediaKitLibsWindowsVideoPluginCApiRegisterWithRegistrar
         finding_MediaKit 5 busy_process))
       = ''earlier'' @ [CHR 0x0A] @ ''pending'' @ confirmation @ [CHR 0x0A]"
proof -
  have h1: "fst (discovery finding_MediaKit (media_kit idle_process)) = None"
    by (simp add: sample_defs)
  have h2: "fst (discovery finding_MediaKit (media_kit busy_process)) = None"
    by (simp add: sample_defs)
  from h1 h2 have same: "(fst (discovery finding_MediaKit (media_kit idle_process)) = None)
     = (fst (discovery finding_MediaKit (media_kit busy_process)) = None)"
    by simp
  have run: "written idle_process (snd (MediaKitLibsWindowsVideoPluginCApiRegisterWithRegistrar
         finding_MediaKit 0 idle_process)) = confirmation @ [CHR 0x0A]"
    by (simp add: register_returned [OF h1] cout_text_def)
  show ?thesis
    using h1 h2 run register_deterministic [OF refl refl same, of 0 5]
    by (simp add: idle_process_def busy_process_def)
qed

theorem register_deterministic_counterexample:
  "emitted busy_process (snd (MediaKitLibsWindowsVideoPluginCApiRegisterWithRegistrar
        finding_MediaKit 5 busy_process))
     \<noteq> emitted busy_process (snd (MediaKitLibsWindowsVideoPluginCApiRegisterWithRegistrar
        failing_MediaKit 5 busy_process))
   \<and> written busy_process (snd (MediaKitLibsWindowsVideoPluginCApiRegisterWithRegistrar
        finding_MediaKit 5 busy_process))
     \<noteq> written busy_process (snd (MediaKitLibsWindowsVideoPluginCApiRegisterWithRegistrar
        failing_MediaKit 5 busy_process))"
proof -
  have h1: "fst (discovery finding_MediaKit (media_kit busy_process)) = None"
    by (simp add: sample_defs)
  have h2: "fst (discovery failing_MediaKit (media_kit busy_process)) = Some ''no packages''"
    by (simp add: sample_defs)
  show ?thesis
    by (simp add: register_returned [OF h1] register_threw [OF h2] cout_text_def)
qed

end
